theory Spec2Isabelle
  imports Main
begin

section \<open>Glue job constructs: PySpark Streaming and Ray\<close>

text \<open>
  A shallow embedding of the constructors of \<^verbatim>\<open>pySparkStreamingJob\<close>
  (\<^verbatim>\<open>lib/jobs/pyspark-streaming-job.ts\<close>) and \<^verbatim>\<open>RayJob\<close> (\<^verbatim>\<open>lib/jobs/ray-job.ts\<close>).
  A constructor either throws or returns the constructed job; the model returns
  \<open>Inl\<close> of the error or \<open>Inr\<close> of a record holding the fields of the job together with
  everything the constructor created or granted on the way.
\<close>

subsection \<open>Argument maps\<close>

text \<open>
  An argument map is a JavaScript object \<^verbatim>\<open>{ [key: string]: string }\<close>: its own
  properties in insertion order. Assigning to a property that exists replaces its value
  in place, assigning to a new one appends it.
\<close>

type_synonym ArgumentMap = "(string \<times> string) list"

fun set_prop :: "ArgumentMap \<Rightarrow> string \<Rightarrow> string \<Rightarrow> ArgumentMap" where
  "set_prop [] k v = [(k, v)]"
| "set_prop ((k', v') # rest) k v =
     (if k' = k then (k', v) # rest else (k', v') # set_prop rest k v)"

text \<open>
  The spread element \<^verbatim>\<open>...src\<close> of an object literal copies the properties of \<open>src\<close>, in
  their order, into the object built so far.
\<close>

fun spread :: "ArgumentMap \<Rightarrow> ArgumentMap \<Rightarrow> ArgumentMap" where
  "spread obj [] = obj"
| "spread obj ((k, v) # src) = spread (set_prop obj k v) src"

text \<open>Spreading \<^verbatim>\<open>undefined\<close> adds nothing.\<close>

fun spread_opt :: "ArgumentMap \<Rightarrow> ArgumentMap option \<Rightarrow> ArgumentMap" where
  "spread_opt obj None = obj"
| "spread_opt obj (Some src) = spread obj src"

definition keys :: "ArgumentMap \<Rightarrow> string list" where
  "keys obj = map fst obj"

text \<open>
  The merge as the specification words it: the fragments are listed from the lowest to
  the highest precedence, and on a key collision the later fragment wins.
\<close>

fun ordered_merge :: "ArgumentMap list \<Rightarrow> string \<Rightarrow> string option" where
  "ordered_merge [] k = None"
| "ordered_merge (frag # later) k =
     (case ordered_merge later k of Some v \<Rightarrow> Some v | None \<Rightarrow> map_of frag k)"

subsection \<open>Constants\<close>

text \<open>
  \<^verbatim>\<open>lib/constants.ts\<close> is not among the sources. The enums below carry the members the
  two constructors name; every member is a non-empty string in TypeScript, hence truthy.
\<close>

datatype JobType = STREAMING
datatype JobLanguage = PYTHON
datatype PythonVersion = THREE_NINE
datatype GlueVersion = V2_0 | V3_0 | V4_0
datatype WorkerType = G_1X | G_2X | Z_2X

text \<open>
  Modelled from the spec: the string value of \<^verbatim>\<open>JobLanguage.PYTHON\<close>, declared in the
  missing \<^verbatim>\<open>lib/constants.ts\<close>. The job-language argument names the language of the
  variant; for a Python variant it is \<^verbatim>\<open>python\<close>.
\<close>

fun JobLanguage_value :: "JobLanguage \<Rightarrow> string" where
  "JobLanguage_value PYTHON = ''python''"

subsection \<open>Collaborators\<close>

datatype Role = Role string
datatype Bucket = Bucket string
datatype Code = Code string
datatype Connection = Connection string
datatype SecurityConfiguration = SecurityConfiguration string
datatype Duration = Minutes int

fun connectionName :: "Connection \<Rightarrow> string" where
  "connectionName (Connection n) = n"

fun securityConfigurationName :: "SecurityConfiguration \<Rightarrow> string" where
  "securityConfigurationName (SecurityConfiguration n) = n"

fun toMinutes :: "Duration \<Rightarrow> int" where
  "toMinutes (Minutes m) = m"

fun roleArn :: "Role \<Rightarrow> string" where
  "roleArn (Role arn) = arn"

datatype Principal = ServicePrincipal string
datatype ManagedPolicy = AwsManagedPolicy string

text \<open>What a role can be given: a managed policy, or read/write on a bucket below a key pattern.\<close>

datatype Permission =
    ManagedPolicyAttachment ManagedPolicy
  | ReadWrite Bucket "string option"

datatype error =
    ConfigurationError string
  | ReservedArgumentError "string list"
  | ValidationError "string option"

subsection \<open>The emitted resource\<close>

text \<open>The properties handed to \<^verbatim>\<open>new CfnJob(this, 'Resource', {...})\<close>.\<close>

record JobCommand =
  name :: JobType
  scriptLocation :: string
  pythonVersion :: PythonVersion

record ExecutionProperty =
  maxConcurrentRuns :: int

record ConnectionsList =
  connections :: "string list"

record CfnJobProps =
  name :: "string option"
  description :: "string option"
  role :: string
  command :: JobCommand
  glueVersion :: "GlueVersion option"
  workerType :: "WorkerType option"
  numberOfWorkers :: "int option"
  maxRetries :: "int option"
  executionProperty :: "ExecutionProperty option"
  timeout :: "int option"
  connections :: "ConnectionsList option"
  securityConfiguration :: "string option"
  tags :: "(string \<times> string) list option"
  defaultArguments :: ArgumentMap

subsection \<open>Properties\<close>

text \<open>
  \<^verbatim>\<open>JobProperties\<close>, \<^verbatim>\<open>ContinuousLoggingProps\<close>, \<^verbatim>\<open>SparkUIProps\<close> and
  \<^verbatim>\<open>SparkUILoggingLocation\<close> are declared in files that are not among the sources
  (\<^verbatim>\<open>lib/jobs/job.ts\<close>, \<^verbatim>\<open>lib/jobs/spark-ui.ts\<close>). The records have the fields the two
  constructors read; an optional property is an \<open>option\<close>, \<open>None\<close> being \<^verbatim>\<open>undefined\<close>.
\<close>

record ContinuousLoggingProps =
  enabled :: bool
  logGroup :: "string option"
  conversionPattern :: "string option"
  quiet :: "bool option"

record SparkUIProps =
  bucket :: "Bucket option"
  prefix :: "string option"

record SparkUILoggingLocation =
  prefix :: "string option"
  bucket :: Bucket

record JobProperties =
  jobName :: "string option"
  description :: "string option"
  role :: Role
  script :: Code
  glueVersion :: "GlueVersion option"
  workerType :: "WorkerType option"
  numberOrWorkers :: "int option"
  maxRetries :: "int option"
  maxConcurrentRuns :: "int option"
  timeout :: "Duration option"
  connections :: "Connection list option"
  securityConfiguration :: "SecurityConfiguration option"
  tags :: "(string \<times> string) list option"
  defaultArguments :: "ArgumentMap option"
  continuousLogging :: "ContinuousLoggingProps option"

record PySparkStreamingJobProperties = JobProperties +
  sparkUI :: "SparkUIProps option"
  extraPythonFiles :: "string list option"

type_synonym RayJobProperties = JobProperties

subsection \<open>What the constructors do not define themselves\<close>

text \<open>
  The helpers of the base class \<^verbatim>\<open>Job\<close> and of \<^verbatim>\<open>spark-ui.ts\<close>, and the methods of the
  CDK library, are not among the sources. What the constructors need of them is a
  parameter of the model:
  \<^item> \<open>reservedArgs\<close>: the reserved argument keys;
  \<^item> \<open>validSparkUiPrefix\<close>: whether a Spark UI prefix is well formed;
  \<^item> \<open>cleanSparkUiPrefixForGrant\<close>: the key pattern granted for a prefix;
  \<^item> \<open>setupContinuousLogging\<close>: the argument fragment for a continuous-logging
    configuration (the specification gives it no validation, so it does not throw);
  \<^item> \<open>s3UrlForObject\<close>: the URL of a key in a bucket;
  \<^item> \<open>codeS3ObjectUrl\<close>: the URL of the script;
  \<^item> \<open>ref\<close>: the reference of the resource created at a construct path;
  \<^item> \<open>getResourceNameAttribute\<close>: the name attribute for a reference;
  \<^item> \<open>arnPrefix\<close>: the prefix of the ARNs of the stack.
\<close>

record Env =
  reservedArgs :: "string list"
  validSparkUiPrefix :: "string option \<Rightarrow> bool"
  cleanSparkUiPrefixForGrant :: "string option \<Rightarrow> string option"
  setupContinuousLogging :: "Role \<Rightarrow> ContinuousLoggingProps \<Rightarrow> ArgumentMap"
  s3UrlForObject :: "Bucket \<Rightarrow> string option \<Rightarrow> string"
  codeS3ObjectUrl :: "Code \<Rightarrow> string"
  ref :: "string \<Rightarrow> string"
  getResourceNameAttribute :: "string \<Rightarrow> string"
  arnPrefix :: string

text \<open>
  Modelled from the spec: \<^verbatim>\<open>Job.checkNoReservedArgs\<close> of the missing \<^verbatim>\<open>lib/jobs/job.ts\<close>.
  Every key of the caller-supplied map is checked against the reserved-key set; any
  collision fails with a \<open>ReservedArgumentError\<close> naming the offending keys. The
  constructors spread what it returns, which is the map it was given.
\<close>

definition checkNoReservedArgs :: "Env \<Rightarrow> ArgumentMap option \<Rightarrow> error + ArgumentMap option" where
  "checkNoReservedArgs env arguments =
     (case arguments of
        None \<Rightarrow> Inr None
      | Some args \<Rightarrow>
          (case filter (\<lambda>k. k \<in> set (reservedArgs env)) (keys args) of
             [] \<Rightarrow> Inr (Some args)
           | offending \<Rightarrow> Inl (ReservedArgumentError offending)))"

text \<open>
  Modelled from the spec: \<^verbatim>\<open>validateSparkUiPrefix\<close> of the missing \<^verbatim>\<open>lib/jobs/spark-ui.ts\<close>.
  It validates the prefix format; failure raises a \<open>ValidationError\<close> naming the invalid
  prefix.
\<close>

definition validateSparkUiPrefix :: "Env \<Rightarrow> string option \<Rightarrow> error + unit" where
  "validateSparkUiPrefix env p =
     (if validSparkUiPrefix env p then Inr () else Inl (ValidationError p))"

text \<open>
  Modelled from the spec: \<^verbatim>\<open>Job.buildJobArn\<close> of the missing \<^verbatim>\<open>lib/jobs/job.ts\<close>. The
  identifier is \<^verbatim>\<open>arn-prefix + ":job/" + resolvedName\<close>.
\<close>

definition buildJobArn :: "Env \<Rightarrow> string \<Rightarrow> string" where
  "buildJobArn env resourceName = arnPrefix env @ '':job/'' @ resourceName"

subsection \<open>The constructed job\<close>

text \<open>
  The fields a constructor assigns (\<open>None\<close> for a field it leaves unassigned), followed
  by what it did to its surroundings: the buckets it created below itself, the
  permissions it gave, and the \<^verbatim>\<open>CfnJob\<close> it emitted.
\<close>

record Job =
  physicalName :: "string option"
  role :: Role
  grantPrincipal :: Role
  sparkUILoggingLocation :: "SparkUILoggingLocation option"
  jobArn :: "string option"
  jobName :: "string option"
  createdBuckets :: "Bucket list"
  permissions :: "(Role \<times> Permission) list"
  jobResource :: "CfnJobProps option"

text \<open>The object literal that follows the comma in the role assignment of both constructors.\<close>

record RoleProps =
  assumedBy :: Principal
  managedPolicies :: "ManagedPolicy list"

definition roleLiteral :: RoleProps where
  "roleLiteral =
     \<lparr>assumedBy = ServicePrincipal ''glue.amazonaws.com'',
      managedPolicies = [AwsManagedPolicy ''service-role/AWSGlueServiceRole'']\<rparr>"

text \<open>
  \<^verbatim>\<open>this.role = props.role, {...};\<close> is a comma expression used as a statement: the
  assignment is its left operand, the object literal its right operand and its value,
  which the statement drops. The field gets the left operand's right-hand side.
\<close>

definition assignRole :: "Role \<Rightarrow> RoleProps \<Rightarrow> Role" where
  "assignRole r literal = r"

subsection \<open>\<^verbatim>\<open>pySparkStreamingJob\<close>\<close>

text \<open>\<^verbatim>\<open>executableArguments\<close>: the body of the \<^verbatim>\<open>if\<close> is a comment.\<close>

definition executableArguments :: "'a PySparkStreamingJobProperties_scheme \<Rightarrow> ArgumentMap" where
  "executableArguments props =
     (let args = [];
          args = set_prop args ''--job-language'' (JobLanguage_value PYTHON);
          args = (if (case extraPythonFiles props of None \<Rightarrow> False | Some files \<Rightarrow> length files > 0)
                  then args else args)
      in args)"

record SparkUISetup =
  location :: SparkUILoggingLocation
  args :: ArgumentMap
  created :: "Bucket list"
  granted :: "(Role \<times> Permission) list"

text \<open>
  \<^verbatim>\<open>setupSparkUI\<close>; \<open>this\<close> is the construct path of the job, below which a bucket
  would be created.
\<close>

definition setupSparkUI :: "Env \<Rightarrow> string \<Rightarrow> Role \<Rightarrow> SparkUIProps \<Rightarrow> error + SparkUISetup" where
  "setupSparkUI env this r sparkUiProps =
     (case validateSparkUiPrefix env (SparkUIProps.prefix sparkUiProps) of
        Inl e \<Rightarrow> Inl e
      | Inr _ \<Rightarrow>
          (let fresh = (case SparkUIProps.bucket sparkUiProps of
                          Some b \<Rightarrow> []
                        | None \<Rightarrow> [Bucket (this @ ''/SparkUIBucket'')]);
               b = (case SparkUIProps.bucket sparkUiProps of
                      Some b \<Rightarrow> b
                    | None \<Rightarrow> Bucket (this @ ''/SparkUIBucket''));
               grant = (r, ReadWrite b
                             (cleanSparkUiPrefixForGrant env (SparkUIProps.prefix sparkUiProps)));
               args = [(''--enable-spark-ui'', ''true''),
                       (''--spark-event-logs-path'',
                        s3UrlForObject env b (SparkUIProps.prefix sparkUiProps))]
           in Inr \<lparr>location = \<lparr>SparkUILoggingLocation.prefix = SparkUIProps.prefix sparkUiProps,
                                 SparkUILoggingLocation.bucket = b\<rparr>,
                    args = args,
                    created = fresh,
                    granted = [grant]\<rparr>))"

text \<open>
  Line 85: \<^verbatim>\<open>props.sparkUI?.bucket ? this.setupSparkUI(this.role, props.sparkUI) : undefined\<close>.
\<close>

definition sparkUIArgs ::
  "Env \<Rightarrow> string \<Rightarrow> Role \<Rightarrow> 'a PySparkStreamingJobProperties_scheme \<Rightarrow> error + SparkUISetup option" where
  "sparkUIArgs env this r props =
     (case sparkUI props of
        None \<Rightarrow> Inr None
      | Some ui \<Rightarrow>
          (case SparkUIProps.bucket ui of
             None \<Rightarrow> Inr None
           | Some _ \<Rightarrow>
               (case setupSparkUI env this r ui of
                  Inl e \<Rightarrow> Inl e
                | Inr s \<Rightarrow> Inr (Some s))))"

text \<open>
  Line 89: \<^verbatim>\<open>props.continuousLogging?.enabled ? this.setupContinuousLogging(...) : {}\<close>.
\<close>

definition continuousLoggingArgs :: "Env \<Rightarrow> Role \<Rightarrow> 'a JobProperties_scheme \<Rightarrow> ArgumentMap" where
  "continuousLoggingArgs env r props =
     (case continuousLogging props of
        None \<Rightarrow> []
      | Some cl \<Rightarrow> if enabled cl then setupContinuousLogging env r cl else [])"

definition profilingMetricsArgs :: ArgumentMap where
  "profilingMetricsArgs = [(''--enable-metrics'', '''')]"

text \<open>
  Lines 96 to 102: the object literal of five spread elements, evaluated from the first
  to the last; the last one is the call of \<^verbatim>\<open>checkNoReservedArgs\<close>, which may throw.
\<close>

definition combineArguments ::
  "Env \<Rightarrow> ArgumentMap \<Rightarrow> ArgumentMap \<Rightarrow> ArgumentMap \<Rightarrow> ArgumentMap option \<Rightarrow> ArgumentMap option
     \<Rightarrow> error + ArgumentMap" where
  "combineArguments env executableArgs continuousLogging_args metricsArgs sparkUI_args callerArgs =
     (let obj = [];
          obj = spread obj executableArgs;
          obj = spread obj continuousLogging_args;
          obj = spread obj metricsArgs;
          obj = spread_opt obj sparkUI_args
      in case checkNoReservedArgs env callerArgs of
           Inl e \<Rightarrow> Inl e
         | Inr checked \<Rightarrow> Inr (spread_opt obj checked))"

text \<open>Line 104: the condition under which the constructor throws.\<close>

definition workerSizingMismatch :: "'a JobProperties_scheme \<Rightarrow> bool" where
  "workerSizingMismatch props =
     ((JobProperties.workerType props = None \<and> numberOrWorkers props \<noteq> None) \<or>
      (JobProperties.workerType props \<noteq> None \<and> numberOrWorkers props = None))"

text \<open>Lines 108 to 127: the properties of the \<^verbatim>\<open>CfnJob\<close>.\<close>

definition cfnJobProps ::
  "Env \<Rightarrow> Role \<Rightarrow> ArgumentMap \<Rightarrow> 'a PySparkStreamingJobProperties_scheme \<Rightarrow> CfnJobProps" where
  "cfnJobProps env r arguments props =
     \<lparr>CfnJobProps.name = JobProperties.jobName props,
      CfnJobProps.description = JobProperties.description props,
      CfnJobProps.role = roleArn r,
      command = \<lparr>JobCommand.name = STREAMING,
                 scriptLocation = codeS3ObjectUrl env (script props),
                 pythonVersion = THREE_NINE\<rparr>,
      CfnJobProps.glueVersion =
        Some (case JobProperties.glueVersion props of Some v \<Rightarrow> v | None \<Rightarrow> V4_0),
      CfnJobProps.workerType =
        Some (case JobProperties.workerType props of Some w \<Rightarrow> w | None \<Rightarrow> G_2X),
      numberOfWorkers = numberOrWorkers props,
      CfnJobProps.maxRetries = JobProperties.maxRetries props,
      executionProperty =
        (case JobProperties.maxConcurrentRuns props of
           None \<Rightarrow> None
         | Some n \<Rightarrow> if n \<noteq> 0 then Some \<lparr>ExecutionProperty.maxConcurrentRuns = n\<rparr> else None),
      CfnJobProps.timeout = map_option toMinutes (JobProperties.timeout props),
      CfnJobProps.connections =
        (case JobProperties.connections props of
           None \<Rightarrow> None
         | Some cs \<Rightarrow> Some \<lparr>ConnectionsList.connections = map connectionName cs\<rparr>),
      CfnJobProps.securityConfiguration =
        map_option securityConfigurationName (JobProperties.securityConfiguration props),
      CfnJobProps.tags = JobProperties.tags props,
      CfnJobProps.defaultArguments = arguments\<rparr>"

text \<open>
  The constructor. \<open>scope\<close> and \<open>id\<close> give the construct path of the job; the
  \<^verbatim>\<open>CfnJob\<close> is its child \<^verbatim>\<open>Resource\<close>.
\<close>

definition pySparkStreamingJob ::
  "Env \<Rightarrow> string \<Rightarrow> string \<Rightarrow> 'a PySparkStreamingJobProperties_scheme \<Rightarrow> error + Job" where
  "pySparkStreamingJob env scope ident props =
     (let this = scope @ ''/'' @ ident;
          this_role = assignRole (JobProperties.role props) roleLiteral;
          this_grantPrincipal = this_role
      in case sparkUIArgs env this this_role props of
           Inl e \<Rightarrow> Inl e
         | Inr sparkUI_args \<Rightarrow>
             (let continuousLogging_args = continuousLoggingArgs env this_role props;
                  executableArgs = executableArguments props
              in case combineArguments env executableArgs continuousLogging_args
                        profilingMetricsArgs (map_option args sparkUI_args)
                        (JobProperties.defaultArguments props) of
                   Inl e \<Rightarrow> Inl e
                 | Inr arguments \<Rightarrow>
                     if workerSizingMismatch props
                     then Inl (ConfigurationError ''Both workerType and numberOrWorkers must be set'')
                     else
                       (let resource = cfnJobProps env this_role arguments props;
                            resourceName = getResourceNameAttribute env (ref env (this @ ''/Resource''))
                        in Inr \<lparr>physicalName = JobProperties.jobName props,
                                 Job.role = this_role,
                                 grantPrincipal = this_grantPrincipal,
                                 sparkUILoggingLocation = map_option location sparkUI_args,
                                 jobArn = Some (buildJobArn env resourceName),
                                 Job.jobName = Some resourceName,
                                 createdBuckets = (case sparkUI_args of None \<Rightarrow> [] | Some s \<Rightarrow> created s),
                                 permissions = (case sparkUI_args of None \<Rightarrow> [] | Some s \<Rightarrow> granted s),
                                 jobResource = Some resource\<rparr>)))"

subsection \<open>\<^verbatim>\<open>RayJob\<close>\<close>

text \<open>
  The constructor ends after building the local \<^verbatim>\<open>defaultArguments\<close>: it emits no
  resource and assigns neither \<^verbatim>\<open>jobArn\<close> nor \<^verbatim>\<open>jobName\<close>.
\<close>

definition RayJob :: "Env \<Rightarrow> string \<Rightarrow> string \<Rightarrow> 'a JobProperties_scheme \<Rightarrow> error + Job" where
  "RayJob env scope ident props =
     (let this_role = assignRole (JobProperties.role props) roleLiteral;
          this_grantPrincipal = this_role
      in case checkNoReservedArgs env (JobProperties.defaultArguments props) of
           Inl e \<Rightarrow> Inl e
         | Inr checked \<Rightarrow>
             (let arguments = spread_opt [] checked
              in Inr \<lparr>physicalName = JobProperties.jobName props,
                       Job.role = this_role,
                       grantPrincipal = this_grantPrincipal,
                       sparkUILoggingLocation = None,
                       jobArn = None,
                       Job.jobName = None,
                       createdBuckets = [],
                       permissions = [],
                       jobResource = None\<rparr>))"

subsection \<open>A concrete environment and concrete properties\<close>

text \<open>
  An instance of the parameters, for evaluating the constructors: three reserved keys;
  a prefix is well formed when it is absent, or does not begin with a slash and ends
  with one; the granted key pattern replaces the final character by a star.
\<close>

definition env0 :: Env where
  "env0 =
     \<lparr>reservedArgs = [''--debug'', ''--mode'', ''--JOB_NAME''],
      validSparkUiPrefix =
        (\<lambda>p. case p of None \<Rightarrow> True
                       | Some s \<Rightarrow> s \<noteq> [] \<and> hd s \<noteq> CHR ''/'' \<and> last s = CHR ''/''),
      cleanSparkUiPrefixForGrant = map_option (\<lambda>s. butlast s @ ''*''),
      setupContinuousLogging = (\<lambda>r cl. [(''--enable-continuous-cloudwatch-log'', ''true'')]),
      s3UrlForObject =
        (\<lambda>b key. case b of Bucket n \<Rightarrow> ''s3://'' @ n @ ''/'' @ (case key of None \<Rightarrow> [] | Some k \<Rightarrow> k)),
      codeS3ObjectUrl = (\<lambda>c. case c of Code url \<Rightarrow> url),
      ref = (\<lambda>path. path),
      getResourceNameAttribute = (\<lambda>r. r),
      arnPrefix = ''arn:aws:glue:us-east-1:123456789012''\<rparr>"

text \<open>The least a caller supplies: a script and a role.\<close>

definition props0 :: PySparkStreamingJobProperties where
  "props0 =
     \<lparr>JobProperties.jobName = None,
      JobProperties.description = None,
      JobProperties.role = Role ''arn:aws:iam::123456789012:role/glue'',
      script = Code ''s3://scripts/job.py'',
      JobProperties.glueVersion = None,
      JobProperties.workerType = None,
      numberOrWorkers = None,
      JobProperties.maxRetries = None,
      JobProperties.maxConcurrentRuns = None,
      JobProperties.timeout = None,
      JobProperties.connections = None,
      JobProperties.securityConfiguration = None,
      JobProperties.tags = None,
      JobProperties.defaultArguments = None,
      continuousLogging = None,
      sparkUI = None,
      extraPythonFiles = None\<rparr>"

text \<open>A job that uses every fragment, and whose caller overrides the metrics argument.\<close>

definition propsAll :: PySparkStreamingJobProperties where
  "propsAll =
     props0
       \<lparr>JobProperties.workerType := Some G_1X,
        numberOrWorkers := Some 4,
        JobProperties.defaultArguments :=
          Some [(''--enable-metrics'', ''true''), (''--TempDir'', ''s3://tmp/'')],
        continuousLogging :=
          Some \<lparr>enabled = True, logGroup = None, conversionPattern = None, quiet = None\<rparr>,
        sparkUI :=
          Some \<lparr>SparkUIProps.bucket = Some (Bucket ''events''),
                SparkUIProps.prefix = Some ''logs/''\<rparr>\<rparr>"

text \<open>The same least properties for a Ray job.\<close>

definition rayProps0 :: RayJobProperties where
  "rayProps0 =
     \<lparr>JobProperties.jobName = None,
      JobProperties.description = None,
      JobProperties.role = Role ''arn:aws:iam::123456789012:role/glue'',
      script = Code ''s3://scripts/ray.py'',
      JobProperties.glueVersion = None,
      JobProperties.workerType = None,
      numberOrWorkers = None,
      JobProperties.maxRetries = None,
      JobProperties.maxConcurrentRuns = None,
      JobProperties.timeout = None,
      JobProperties.connections = None,
      JobProperties.securityConfiguration = None,
      JobProperties.tags = None,
      JobProperties.defaultArguments = None,
      continuousLogging = None\<rparr>"

subsection \<open>Vocabulary of the properties\<close>

text \<open>An absent fragment contributes like the empty object.\<close>

definition fragment :: "ArgumentMap option \<Rightarrow> ArgumentMap" where
  "fragment f = (case f of None \<Rightarrow> [] | Some obj \<Rightarrow> obj)"

text \<open>The caller-supplied keys that are reserved, in the caller's order.\<close>

definition offendingKeys :: "Env \<Rightarrow> 'a JobProperties_scheme \<Rightarrow> string list" where
  "offendingKeys env props =
     filter (\<lambda>k. k \<in> set (reservedArgs env))
       (keys (fragment (JobProperties.defaultArguments props)))"

text \<open>
  Spark UI counts as enabled when a Spark UI configuration with a storage container is
  supplied.
\<close>

definition sparkUIEnabled :: "'a PySparkStreamingJobProperties_scheme \<Rightarrow> bool" where
  "sparkUIEnabled props =
     (case sparkUI props of None \<Rightarrow> False | Some ui \<Rightarrow> SparkUIProps.bucket ui \<noteq> None)"

text \<open>The arguments of the emitted resource; none when no resource was emitted.\<close>

definition emittedArguments :: "Job \<Rightarrow> ArgumentMap option" where
  "emittedArguments job = map_option CfnJobProps.defaultArguments (jobResource job)"

text \<open>Whether a permission attaches a managed policy.\<close>

fun isManagedPolicyAttachment :: "Permission \<Rightarrow> bool" where
  "isManagedPolicyAttachment (ManagedPolicyAttachment _) = True"
| "isManagedPolicyAttachment (ReadWrite _ _) = False"

text \<open>Observers of a constructor's result: the emitted resource, the job, the arguments.\<close>

definition resourceOf :: "error + Job \<Rightarrow> CfnJobProps option" where
  "resourceOf result = (case result of Inl e \<Rightarrow> None | Inr job \<Rightarrow> jobResource job)"

definition constructed :: "error + Job \<Rightarrow> Job option" where
  "constructed result = (case result of Inl e \<Rightarrow> None | Inr job \<Rightarrow> Some job)"

definition argumentsOf :: "error + Job \<Rightarrow> ArgumentMap option" where
  "argumentsOf result = map_option CfnJobProps.defaultArguments (resourceOf result)"

text \<open>Further inputs: \<open>props0\<close> with a few properties set.\<close>

definition propsLogging :: PySparkStreamingJobProperties where
  "propsLogging =
     props0
       \<lparr>continuousLogging :=
          Some \<lparr>enabled = True, logGroup = None, conversionPattern = None, quiet = None\<rparr>\<rparr>"

definition propsReservedBadPrefix :: PySparkStreamingJobProperties where
  "propsReservedBadPrefix =
     props0
       \<lparr>JobProperties.defaultArguments := Some [(''--debug'', ''true'')],
        sparkUI :=
          Some \<lparr>SparkUIProps.bucket = Some (Bucket ''events''),
                SparkUIProps.prefix = Some ''/logs''\<rparr>\<rparr>"

definition propsCallerSparkUiKey :: PySparkStreamingJobProperties where
  "propsCallerSparkUiKey = props0\<lparr>JobProperties.defaultArguments := Some [(''--enable-spark-ui'', ''true'')]\<rparr>"

definition propsCallerOverride :: PySparkStreamingJobProperties where
  "propsCallerOverride =
     props0
       \<lparr>JobProperties.defaultArguments := Some [(''--enable-spark-ui'', ''false'')],
        sparkUI :=
          Some \<lparr>SparkUIProps.bucket = Some (Bucket ''events''),
                SparkUIProps.prefix = Some ''logs/''\<rparr>\<rparr>"

definition sparkUINoBucket :: SparkUIProps where
  "sparkUINoBucket = \<lparr>SparkUIProps.bucket = None, SparkUIProps.prefix = Some ''logs/''\<rparr>"

definition propsSparkUINoBucket :: PySparkStreamingJobProperties where
  "propsSparkUINoBucket = props0\<lparr>sparkUI := Some sparkUINoBucket\<rparr>"

definition propsOnlyWorkerType :: PySparkStreamingJobProperties where
  "propsOnlyWorkerType = props0\<lparr>JobProperties.workerType := Some G_1X\<rparr>"

definition propsReserved :: PySparkStreamingJobProperties where
  "propsReserved = props0\<lparr>JobProperties.defaultArguments := Some [(''--debug'', ''true'')]\<rparr>"

definition rayPropsReserved :: RayJobProperties where
  "rayPropsReserved = rayProps0\<lparr>JobProperties.defaultArguments := Some [(''--debug'', ''true'')]\<rparr>"

definition rayPropsOnlyWorkerType :: RayJobProperties where
  "rayPropsOnlyWorkerType = rayProps0\<lparr>JobProperties.workerType := Some Z_2X\<rparr>"

text \<open>An environment that reserves the keys of the variant and metrics fragments.\<close>

definition envReservingDefaults :: Env where
  "envReservingDefaults = env0\<lparr>reservedArgs := [''--enable-metrics'', ''--job-language'']\<rparr>"

section \<open>Properties\<close>

subsection \<open>Assignment and spread\<close>

lemma map_of_set_prop: "map_of (set_prop obj k v) = (map_of obj)(k \<mapsto> v)"
  by (induction obj k v rule: set_prop.induct) auto

lemma keys_set_prop:
  "keys (set_prop obj k v) = (if k \<in> set (keys obj) then keys obj else keys obj @ [k])"
  by (induction obj k v rule: set_prop.induct) (auto simp: keys_def)

lemma map_of_spread:
  "distinct (keys src) \<Longrightarrow> map_of (spread obj src) = map_of obj ++ map_of src"
proof (induction obj src rule: spread.induct)
  case (1 obj)
  then show ?case by simp
next
  case (2 obj k v src)
  from "2.prems" have fresh: "k \<notin> dom (map_of src)" and rest: "distinct (keys src)"
    by (auto simp: keys_def dom_map_of_conv_image_fst)
  have "map_of (spread obj ((k, v) # src)) = (map_of obj)(k \<mapsto> v) ++ map_of src"
    by (simp only: spread.simps "2.IH" [OF rest] map_of_set_prop)
  also have "\<dots> = map_of obj ++ map_of ((k, v) # src)"
    using fresh by (auto simp: map_add_def fun_eq_iff split: option.splits)
  finally show ?case .
qed

lemma set_keys_spread: "set (keys (spread obj src)) = set (keys obj) \<union> set (keys src)"
  by (induction obj src rule: spread.induct) (auto simp: keys_set_prop, auto simp: keys_def)

lemma map_of_spread_other:
  "k \<notin> set (keys src) \<Longrightarrow> map_of (spread obj src) k = map_of obj k"
  by (induction obj src rule: spread.induct) (auto simp: map_of_set_prop keys_def)

lemma ordered_merge_Cons: "ordered_merge (frag # later) = map_of frag ++ ordered_merge later"
  by (auto simp: fun_eq_iff map_add_def split: option.splits)

lemma ordered_merge_Nil: "ordered_merge [] = Map.empty"
  by (simp add: fun_eq_iff)

lemma spread_opt_fragment: "spread_opt obj f = spread obj (fragment f)"
  by (cases f) (simp_all add: fragment_def)

lemma map_of_five_spreads:
  assumes "distinct (keys ex)" "distinct (keys cl)" "distinct (keys me)"
    "distinct (keys ui)" "distinct (keys caller)"
  shows "map_of (spread (spread (spread (spread (spread [] ex) cl) me) ui) caller)
         = ordered_merge [ex, cl, me, ui, caller]"
  using assms
  by (simp add: map_of_spread ordered_merge_Cons ordered_merge_Nil)

subsection \<open>What a successful construction went through\<close>

lemma executableArguments_eq: "executableArguments props = [(''--job-language'', ''python'')]"
  by (simp add: executableArguments_def)

lemma checkNoReservedArgs_cases:
  "checkNoReservedArgs env (JobProperties.defaultArguments props) =
     (if offendingKeys env props = [] then Inr (JobProperties.defaultArguments props)
      else Inl (ReservedArgumentError (offendingKeys env props)))"
  by (auto simp: checkNoReservedArgs_def offendingKeys_def fragment_def keys_def
           split: option.splits list.splits)

lemma combineArguments_cases:
  "combineArguments env ex cl me ui (JobProperties.defaultArguments props) =
     (if offendingKeys env props = []
      then Inr (spread (spread (spread (spread (spread [] ex) cl) me) (fragment ui))
                  (fragment (JobProperties.defaultArguments props)))
      else Inl (ReservedArgumentError (offendingKeys env props)))"
  by (simp add: combineArguments_def checkNoReservedArgs_cases spread_opt_fragment)

lemma sparkUIArgs_cases:
  "sparkUIArgs env this r props =
     (case sparkUI props of
        None \<Rightarrow> Inr None
      | Some ui \<Rightarrow>
          (case SparkUIProps.bucket ui of
             None \<Rightarrow> Inr None
           | Some b \<Rightarrow>
               if validSparkUiPrefix env (SparkUIProps.prefix ui)
               then Inr (Some
                      \<lparr>location = \<lparr>SparkUILoggingLocation.prefix = SparkUIProps.prefix ui,
                                   SparkUILoggingLocation.bucket = b\<rparr>,
                       args = [(''--enable-spark-ui'', ''true''),
                               (''--spark-event-logs-path'',
                                s3UrlForObject env b (SparkUIProps.prefix ui))],
                       created = [],
                       granted = [(r, ReadWrite b
                                        (cleanSparkUiPrefixForGrant env (SparkUIProps.prefix ui)))]\<rparr>)
               else Inl (ValidationError (SparkUIProps.prefix ui))))"
  by (simp add: sparkUIArgs_def setupSparkUI_def validateSparkUiPrefix_def Let_def
           split: option.splits)

lemma sparkUIArgs_disabled:
  "\<not> sparkUIEnabled props \<Longrightarrow> sparkUIArgs env this r props = Inr None"
  by (auto simp: sparkUIArgs_cases sparkUIEnabled_def split: option.splits)

lemma sparkUIArgs_created:
  "sparkUIArgs env this r props = Inr (Some s) \<Longrightarrow> created s = []"
  by (auto simp: sparkUIArgs_cases split: option.splits if_splits)

lemma sparkUIArgs_granted:
  "sparkUIArgs env this r props = Inr (Some s) \<Longrightarrow>
     \<forall>g \<in> set (granted s). \<not> isManagedPolicyAttachment (snd g)"
  by (auto simp: sparkUIArgs_cases split: option.splits if_splits)

lemma sparkUIArgs_keys:
  "sparkUIArgs env this r props = Inr uiSetup \<Longrightarrow>
     keys (fragment (map_option args uiSetup)) =
       (if sparkUIEnabled props then [''--enable-spark-ui'', ''--spark-event-logs-path''] else [])"
  by (auto simp: sparkUIArgs_cases sparkUIEnabled_def fragment_def keys_def
           split: option.splits if_splits)

lemma pySparkStreamingJob_Inr:
  assumes "pySparkStreamingJob env scope ident props = Inr job"
  shows "\<exists>uiSetup.
           sparkUIArgs env (scope @ ''/'' @ ident) (JobProperties.role props) props = Inr uiSetup \<and>
           offendingKeys env props = [] \<and>
           \<not> workerSizingMismatch props \<and>
           Job.role job = JobProperties.role props \<and>
           grantPrincipal job = JobProperties.role props \<and>
           sparkUILoggingLocation job = map_option location uiSetup \<and>
           createdBuckets job = (case uiSetup of None \<Rightarrow> [] | Some s \<Rightarrow> created s) \<and>
           permissions job = (case uiSetup of None \<Rightarrow> [] | Some s \<Rightarrow> granted s) \<and>
           jobResource job =
             Some (cfnJobProps env (JobProperties.role props)
                    (spread (spread (spread (spread (spread [] (executableArguments props))
                       (continuousLoggingArgs env (JobProperties.role props) props))
                       profilingMetricsArgs)
                       (fragment (map_option args uiSetup)))
                       (fragment (JobProperties.defaultArguments props)))
                    props)"
  using assms
  by (auto simp: pySparkStreamingJob_def Let_def assignRole_def combineArguments_cases
           split: sum.splits if_splits)

lemma defaultArguments_cfnJobProps:
  "CfnJobProps.defaultArguments (cfnJobProps env r arguments props) = arguments"
  by (simp add: cfnJobProps_def)

subsection \<open>Evaluation at concrete inputs\<close>

lemmas constructor_defs =
  pySparkStreamingJob_def RayJob_def sparkUIArgs_def setupSparkUI_def validateSparkUiPrefix_def
  combineArguments_def checkNoReservedArgs_def continuousLoggingArgs_def executableArguments_def
  profilingMetricsArgs_def workerSizingMismatch_def cfnJobProps_def buildJobArn_def
  assignRole_def keys_def Let_def

lemmas input_defs = env0_def props0_def propsAll_def rayProps0_def

lemmas more_input_defs = propsLogging_def propsReservedBadPrefix_def propsCallerSparkUiKey_def propsCallerOverride_def propsSparkUINoBucket_def propsOnlyWorkerType_def propsReserved_def sparkUINoBucket_def
  rayPropsOnlyWorkerType_def rayPropsReserved_def envReservingDefaults_def

lemmas observer_defs = constructed_def resourceOf_def argumentsOf_def emittedArguments_def

lemma evaluated_propsAll:
  "\<exists>job. pySparkStreamingJob env0 ''Stack'' ''Job'' propsAll = Inr job"
  by (simp add: constructor_defs input_defs)

subsection \<open>How a construction fails\<close>

lemma RayJob_Inr:
  assumes "RayJob env scope ident props = Inr job"
  shows "offendingKeys env props = [] \<and>
         Job.role job = JobProperties.role props \<and>
         grantPrincipal job = JobProperties.role props \<and>
         permissions job = [] \<and> createdBuckets job = [] \<and>
         jobResource job = None \<and> jobArn job = None \<and> Job.jobName job = None"
  using assms
  by (auto simp: RayJob_def Let_def assignRole_def checkNoReservedArgs_cases split: if_splits)

lemma RayJob_cases:
  "RayJob env scope ident props =
     (if offendingKeys env props \<noteq> []
      then Inl (ReservedArgumentError (offendingKeys env props))
      else RayJob env scope ident props)"
  by (simp add: RayJob_def Let_def checkNoReservedArgs_cases)

lemma RayJob_isl: "isl (RayJob env scope ident props) \<longleftrightarrow> offendingKeys env props \<noteq> []"
  by (simp add: RayJob_def Let_def checkNoReservedArgs_cases)

lemma sparkUIArgs_Inl:
  "sparkUIArgs env this r props = Inl e \<Longrightarrow> \<exists>p. e = ValidationError p"
  by (auto simp: sparkUIArgs_cases split: option.splits if_splits)

lemma pySparkStreamingJob_Inl:
  "pySparkStreamingJob env scope ident props = Inl e \<longleftrightarrow>
     (case sparkUIArgs env (scope @ ''/'' @ ident) (JobProperties.role props) props of
        Inl e' \<Rightarrow> e = e'
      | Inr uiSetup \<Rightarrow>
          if offendingKeys env props \<noteq> []
          then e = ReservedArgumentError (offendingKeys env props)
          else workerSizingMismatch props \<and>
               e = ConfigurationError ''Both workerType and numberOrWorkers must be set'')"
  by (auto simp: pySparkStreamingJob_def Let_def assignRole_def combineArguments_cases
           split: sum.splits)

lemma emitted_arguments:
  assumes built: "pySparkStreamingJob env scope ident props = Inr job"
  shows "\<exists>uiSetup.
           sparkUIArgs env (scope @ ''/'' @ ident) (JobProperties.role props) props = Inr uiSetup \<and>
           createdBuckets job = (case uiSetup of None \<Rightarrow> [] | Some s \<Rightarrow> created s) \<and>
           emittedArguments job =
             Some (spread (spread (spread (spread (spread [] (executableArguments props))
                     (continuousLoggingArgs env (JobProperties.role props) props))
                     profilingMetricsArgs)
                     (fragment (map_option args uiSetup)))
                     (fragment (JobProperties.defaultArguments props)))"
  using pySparkStreamingJob_Inr [OF built]
  by (auto simp: emittedArguments_def defaultArguments_cfnJobProps)

section \<open>Claims\<close>

subsection \<open>C1: precedence of the merged arguments\<close>

text \<open>
  C1. For every successfully constructed PySpark Streaming job, the arguments handed to
  the resource are the ordered merge, later entries winning on a key collision, of the
  variant's arguments, the continuous-logging arguments, the metrics arguments, the
  Spark UI arguments and the caller-supplied \<^verbatim>\<open>defaultArguments\<close>. The two fragments that
  come from outside are objects, so each of their properties occurs once.
\<close>

theorem merged_arguments_precedence:
  assumes built: "pySparkStreamingJob env scope ident props = Inr job"
    and logging: "distinct (keys (continuousLoggingArgs env (JobProperties.role props) props))"
    and caller: "distinct (keys (fragment (JobProperties.defaultArguments props)))"
  shows "\<exists>uiSetup.
           sparkUIArgs env (scope @ ''/'' @ ident) (JobProperties.role props) props = Inr uiSetup \<and>
           map_option map_of (emittedArguments job) =
             Some (ordered_merge
                    [executableArguments props,
                     continuousLoggingArgs env (JobProperties.role props) props,
                     profilingMetricsArgs,
                     fragment (map_option args uiSetup),
                     fragment (JobProperties.defaultArguments props)])"
proof -
  from pySparkStreamingJob_Inr [OF built] obtain uiSetup where
    ui: "sparkUIArgs env (scope @ ''/'' @ ident) (JobProperties.role props) props = Inr uiSetup" and
    resource: "jobResource job =
             Some (cfnJobProps env (JobProperties.role props)
                    (spread (spread (spread (spread (spread [] (executableArguments props))
                       (continuousLoggingArgs env (JobProperties.role props) props))
                       profilingMetricsArgs)
                       (fragment (map_option args uiSetup)))
                       (fragment (JobProperties.defaultArguments props)))
                    props)"
    by blast
  have variant: "distinct (keys (executableArguments props))"
    by (simp add: executableArguments_eq keys_def)
  have metrics: "distinct (keys profilingMetricsArgs)"
    by (simp add: profilingMetricsArgs_def keys_def)
  have sparkUi: "distinct (keys (fragment (map_option args uiSetup)))"
    by (simp add: sparkUIArgs_keys [OF ui])
  have "map_option map_of (emittedArguments job) =
          Some (ordered_merge
                 [executableArguments props,
                  continuousLoggingArgs env (JobProperties.role props) props,
                  profilingMetricsArgs,
                  fragment (map_option args uiSetup),
                  fragment (JobProperties.defaultArguments props)])"
    by (simp only: emittedArguments_def resource option.map defaultArguments_cfnJobProps
          map_of_five_spreads [OF variant logging metrics sparkUi caller])
  with ui show ?thesis by blast
qed

text \<open>
  At \<open>propsAll\<close> every fragment is non-empty and the caller collides with the metrics
  fragment.
\<close>

theorem merged_arguments_precedence_witness:
  "\<exists>job uiSetup.
      pySparkStreamingJob env0 ''Stack'' ''Job'' propsAll = Inr job \<and>
      sparkUIArgs env0 (''Stack'' @ ''/'' @ ''Job'') (JobProperties.role propsAll) propsAll = Inr uiSetup \<and>
      map_option map_of (emittedArguments job) =
        Some (ordered_merge
               [executableArguments propsAll,
                continuousLoggingArgs env0 (JobProperties.role propsAll) propsAll,
                profilingMetricsArgs,
                fragment (map_option args uiSetup),
                fragment (JobProperties.defaultArguments propsAll)])"
proof -
  from evaluated_propsAll obtain job where
    built: "pySparkStreamingJob env0 ''Stack'' ''Job'' propsAll = Inr job" ..
  have logging: "distinct (keys (continuousLoggingArgs env0 (JobProperties.role propsAll) propsAll))"
    by (simp add: continuousLoggingArgs_def env0_def propsAll_def props0_def keys_def)
  have caller: "distinct (keys (fragment (JobProperties.defaultArguments propsAll)))"
    by (simp add: fragment_def propsAll_def props0_def keys_def)
  from merged_arguments_precedence [OF built logging caller] built show ?thesis
    by blast
qed

subsection \<open>C2: reserved argument keys\<close>

text \<open>
  C2, as the constructors have it. The reserved-key check looks at the caller-supplied map
  only. With a reserved key in that map the construction always fails: the Ray
  constructor with a \<open>ReservedArgumentError\<close> naming the offending keys, the PySpark
  Streaming constructor with that error unless its Spark UI set-up, which runs before
  the check, has already failed. Without a reserved key in that map no
  \<open>ReservedArgumentError\<close> is raised, whatever keys the other fragments use.
\<close>

theorem reserved_arguments_rejected:
  "(offendingKeys env rayProps \<noteq> [] \<longrightarrow>
      RayJob env scope ident rayProps = Inl (ReservedArgumentError (offendingKeys env rayProps))) \<and>
   (offendingKeys env rayProps = [] \<longrightarrow> \<not> isl (RayJob env scope ident rayProps)) \<and>
   (offendingKeys env props \<noteq> [] \<longrightarrow>
      pySparkStreamingJob env scope ident props =
        (case sparkUIArgs env (scope @ ''/'' @ ident) (JobProperties.role props) props of
           Inl e \<Rightarrow> Inl e
         | Inr uiSetup \<Rightarrow> Inl (ReservedArgumentError (offendingKeys env props)))) \<and>
   (offendingKeys env props = [] \<longrightarrow>
      pySparkStreamingJob env scope ident props \<noteq> Inl (ReservedArgumentError ks))"
proof (intro conjI impI)
  assume "offendingKeys env rayProps \<noteq> []"
  then show "RayJob env scope ident rayProps = Inl (ReservedArgumentError (offendingKeys env rayProps))"
    by (subst RayJob_cases) simp
next
  assume "offendingKeys env rayProps = []"
  then show "\<not> isl (RayJob env scope ident rayProps)"
    by (simp add: RayJob_isl)
next
  assume some: "offendingKeys env props \<noteq> []"
  show "pySparkStreamingJob env scope ident props =
        (case sparkUIArgs env (scope @ ''/'' @ ident) (JobProperties.role props) props of
           Inl e \<Rightarrow> Inl e
         | Inr uiSetup \<Rightarrow> Inl (ReservedArgumentError (offendingKeys env props)))"
  proof (cases "sparkUIArgs env (scope @ ''/'' @ ident) (JobProperties.role props) props")
    case (Inl e)
    then show ?thesis by (simp add: pySparkStreamingJob_Inl)
  next
    case (Inr uiSetup)
    with some show ?thesis by (simp add: pySparkStreamingJob_Inl)
  qed
next
  assume none: "offendingKeys env props = []"
  show "pySparkStreamingJob env scope ident props \<noteq> Inl (ReservedArgumentError ks)"
  proof
    assume "pySparkStreamingJob env scope ident props = Inl (ReservedArgumentError ks)"
    with none show False
      by (auto simp: pySparkStreamingJob_Inl split: sum.splits dest: sparkUIArgs_Inl)
  qed
qed

text \<open>
  In \<open>env0\<close> the caller's \<^verbatim>\<open>--debug\<close> is rejected by both constructors; in \<open>envReservingDefaults\<close> the
  keys of the variant and metrics fragments are reserved and the construction is not
  rejected for them.
\<close>

theorem reserved_arguments_rejected_witness:
  "offendingKeys env0 rayPropsReserved = [''--debug''] \<and>
   RayJob env0 ''Stack'' ''Job'' rayPropsReserved = Inl (ReservedArgumentError [''--debug'']) \<and>
   offendingKeys env0 propsReserved = [''--debug''] \<and>
   pySparkStreamingJob env0 ''Stack'' ''Job'' propsReserved = Inl (ReservedArgumentError [''--debug'']) \<and>
   offendingKeys envReservingDefaults rayProps0 = [] \<and>
   \<not> isl (RayJob envReservingDefaults ''Stack'' ''Job'' rayProps0) \<and>
   offendingKeys envReservingDefaults props0 = [] \<and>
   pySparkStreamingJob envReservingDefaults ''Stack'' ''Job'' props0 \<noteq> Inl (ReservedArgumentError [''--enable-metrics''])"
proof -
  have ray3: "offendingKeys env0 rayPropsReserved = [''--debug'']"
    and streaming8: "offendingKeys env0 propsReserved = [''--debug'']"
    and ray0: "offendingKeys envReservingDefaults rayProps0 = []"
    and streaming0: "offendingKeys envReservingDefaults props0 = []"
    by (simp_all add: offendingKeys_def fragment_def keys_def input_defs more_input_defs)
  have ui: "sparkUIArgs env0 (''Stack'' @ ''/'' @ ''Job'') (JobProperties.role propsReserved) propsReserved = Inr None"
    by (simp add: sparkUIArgs_def input_defs more_input_defs)
  note rejected = reserved_arguments_rejected
                    [of env0 rayPropsReserved "''Stack''" "''Job''" propsReserved "[]"]
  note accepted = reserved_arguments_rejected
                    [of envReservingDefaults rayProps0 "''Stack''" "''Job''" props0 "[''--enable-metrics'']"]
  from rejected ray3
  have "RayJob env0 ''Stack'' ''Job'' rayPropsReserved = Inl (ReservedArgumentError [''--debug''])"
    by simp
  moreover from rejected streaming8 ui
  have "pySparkStreamingJob env0 ''Stack'' ''Job'' propsReserved = Inl (ReservedArgumentError [''--debug''])"
    by simp
  moreover from accepted ray0
  have "\<not> isl (RayJob envReservingDefaults ''Stack'' ''Job'' rayProps0)"
    by simp
  moreover from accepted streaming0
  have "pySparkStreamingJob envReservingDefaults ''Stack'' ''Job'' props0
          \<noteq> Inl (ReservedArgumentError [''--enable-metrics''])"
    by simp
  ultimately show ?thesis
    using ray3 streaming8 ray0 streaming0 by simp
qed

text \<open>
  C2 as stated fails where the Spark UI prefix is invalid: the caller's map holds the
  reserved \<^verbatim>\<open>--debug\<close>, and the error raised is the \<open>ValidationError\<close> of line 85, not a
  \<open>ReservedArgumentError\<close>.
\<close>

theorem reserved_arguments_rejected_counterexample:
  "offendingKeys env0 propsReservedBadPrefix = [''--debug''] \<and>
   pySparkStreamingJob env0 ''Stack'' ''Job'' propsReservedBadPrefix = Inl (ValidationError (Some ''/logs''))"
  by (simp add: offendingKeys_def fragment_def constructor_defs input_defs more_input_defs)

subsection \<open>C3: worker type and number of workers\<close>

text \<open>
  C3, as the PySpark Streaming constructor has it. If exactly one of \<^verbatim>\<open>workerType\<close> and
  \<^verbatim>\<open>numberOrWorkers\<close> is set, the construction fails; when the Spark UI set-up and the
  reserved-key check, which run first, pass, the error is the \<open>ConfigurationError\<close> with
  the message \<^verbatim>\<open>Both workerType and numberOrWorkers must be set\<close>.
\<close>

theorem worker_sizing_mismatch_rejected:
  assumes exactlyOne: "(JobProperties.workerType props = None) \<noteq> (numberOrWorkers props = None)"
  shows "isl (pySparkStreamingJob env scope ident props) \<and>
         (sparkUIArgs env (scope @ ''/'' @ ident) (JobProperties.role props) props = Inr uiSetup \<longrightarrow>
          offendingKeys env props = [] \<longrightarrow>
          pySparkStreamingJob env scope ident props =
            Inl (ConfigurationError ''Both workerType and numberOrWorkers must be set''))"
proof -
  from exactlyOne have mismatch: "workerSizingMismatch props"
    by (auto simp: workerSizingMismatch_def)
  have "isl (pySparkStreamingJob env scope ident props)"
  proof (cases "sparkUIArgs env (scope @ ''/'' @ ident) (JobProperties.role props) props")
    case (Inl e)
    then have "pySparkStreamingJob env scope ident props = Inl e"
      by (simp add: pySparkStreamingJob_Inl)
    then show ?thesis by simp
  next
    case (Inr ui)
    show ?thesis
    proof (cases "offendingKeys env props = []")
      case True
      with Inr mismatch have "pySparkStreamingJob env scope ident props =
          Inl (ConfigurationError ''Both workerType and numberOrWorkers must be set'')"
        by (simp add: pySparkStreamingJob_Inl)
      then show ?thesis by simp
    next
      case False
      with Inr have "pySparkStreamingJob env scope ident props =
          Inl (ReservedArgumentError (offendingKeys env props))"
        by (simp add: pySparkStreamingJob_Inl)
      then show ?thesis by simp
    qed
  qed
  moreover have "pySparkStreamingJob env scope ident props =
            Inl (ConfigurationError ''Both workerType and numberOrWorkers must be set'')"
    if "sparkUIArgs env (scope @ ''/'' @ ident) (JobProperties.role props) props = Inr uiSetup"
      and "offendingKeys env props = []"
    using that mismatch by (simp add: pySparkStreamingJob_Inl)
  ultimately show ?thesis by blast
qed

text \<open>
  In particular: a PySpark Streaming job with \<^verbatim>\<open>workerType\<close> set and \<^verbatim>\<open>numberOrWorkers\<close>
  unset.
\<close>

theorem worker_sizing_mismatch_rejected_witness:
  "(JobProperties.workerType propsOnlyWorkerType = None) \<noteq> (numberOrWorkers propsOnlyWorkerType = None) \<and>
   JobProperties.workerType propsOnlyWorkerType = Some G_1X \<and>
   isl (pySparkStreamingJob env0 ''Stack'' ''Job'' propsOnlyWorkerType) \<and>
   pySparkStreamingJob env0 ''Stack'' ''Job'' propsOnlyWorkerType =
     Inl (ConfigurationError ''Both workerType and numberOrWorkers must be set'')"
proof -
  have exactlyOne: "(JobProperties.workerType propsOnlyWorkerType = None) \<noteq> (numberOrWorkers propsOnlyWorkerType = None)"
    and workerType: "JobProperties.workerType propsOnlyWorkerType = Some G_1X"
    by (simp_all add: input_defs more_input_defs)
  have ui: "sparkUIArgs env0 (''Stack'' @ ''/'' @ ''Job'') (JobProperties.role propsOnlyWorkerType) propsOnlyWorkerType = Inr None"
    by (simp add: sparkUIArgs_def input_defs more_input_defs)
  have caller: "offendingKeys env0 propsOnlyWorkerType = []"
    by (simp add: offendingKeys_def fragment_def keys_def input_defs more_input_defs)
  from worker_sizing_mismatch_rejected [OF exactlyOne, of env0 "''Stack''" "''Job''" None]
    ui caller exactlyOne workerType
  show ?thesis by blast
qed

text \<open>
  C3 as stated fails twice: the message of the PySpark Streaming constructor is not the
  one the claim quotes, and the Ray constructor accepts a lone \<^verbatim>\<open>workerType\<close>.
\<close>

theorem worker_sizing_mismatch_counterexample:
  "(JobProperties.workerType propsOnlyWorkerType = None) \<noteq> (numberOrWorkers propsOnlyWorkerType = None) \<and>
   pySparkStreamingJob env0 ''Stack'' ''Job'' propsOnlyWorkerType
     \<noteq> Inl (ConfigurationError ''both workerType and numberOfWorkers must be set'') \<and>
   (JobProperties.workerType rayPropsOnlyWorkerType = None) \<noteq> (numberOrWorkers rayPropsOnlyWorkerType = None) \<and>
   \<not> isl (RayJob env0 ''Stack'' ''Ray'' rayPropsOnlyWorkerType)"
  by (simp add: constructor_defs input_defs more_input_defs)

subsection \<open>C4: Spark UI arguments\<close>

text \<open>
  C4, as the constructor has it. A successful construction creates no storage container.
  With Spark UI disabled (no Spark UI configuration with a container) the Spark UI
  contributes nothing: \<^verbatim>\<open>--enable-spark-ui\<close> is a key of the arguments exactly when the
  continuous-logging fragment or the caller's \<^verbatim>\<open>defaultArguments\<close> have it. With a
  caller-supplied container and a prefix, \<^verbatim>\<open>--enable-spark-ui\<close> is \<^verbatim>\<open>true\<close> and
  \<^verbatim>\<open>--spark-event-logs-path\<close> is the container's URL for the prefix, each unless the
  caller's \<^verbatim>\<open>defaultArguments\<close> have that key.
\<close>

theorem spark_ui_arguments:
  assumes built: "pySparkStreamingJob env scope ident props = Inr job"
  shows "createdBuckets job = [] \<and>
         (\<exists>arguments. emittedArguments job = Some arguments \<and>
            (\<not> sparkUIEnabled props \<longrightarrow>
               (''--enable-spark-ui'' \<in> set (keys arguments) \<longleftrightarrow>
                  ''--enable-spark-ui'' \<in>
                     set (keys (continuousLoggingArgs env (JobProperties.role props) props)) \<union>
                     set (keys (fragment (JobProperties.defaultArguments props))))) \<and>
            (\<forall>ui b p.
               sparkUI props = Some ui \<longrightarrow> SparkUIProps.bucket ui = Some b \<longrightarrow>
               SparkUIProps.prefix ui = Some p \<longrightarrow>
                 (''--enable-spark-ui'' \<notin> set (keys (fragment (JobProperties.defaultArguments props)))
                    \<longrightarrow> map_of arguments ''--enable-spark-ui'' = Some ''true'') \<and>
                 (''--spark-event-logs-path''
                      \<notin> set (keys (fragment (JobProperties.defaultArguments props)))
                    \<longrightarrow> map_of arguments ''--spark-event-logs-path''
                          = Some (s3UrlForObject env b (Some p)))))"
proof -
  from emitted_arguments [OF built] obtain uiSetup where
    ui: "sparkUIArgs env (scope @ ''/'' @ ident) (JobProperties.role props) props = Inr uiSetup" and
    buckets: "createdBuckets job = (case uiSetup of None \<Rightarrow> [] | Some s \<Rightarrow> created s)" and
    emitted: "emittedArguments job =
             Some (spread (spread (spread (spread (spread [] (executableArguments props))
                     (continuousLoggingArgs env (JobProperties.role props) props))
                     profilingMetricsArgs)
                     (fragment (map_option args uiSetup)))
                     (fragment (JobProperties.defaultArguments props)))"
    by blast
  have none: "createdBuckets job = []"
    using buckets sparkUIArgs_created [of env _ _ props] ui
    by (cases uiSetup) simp_all
  have disabled: "''--enable-spark-ui'' \<in> set (keys arguments) \<longleftrightarrow>
                  ''--enable-spark-ui'' \<in>
                     set (keys (continuousLoggingArgs env (JobProperties.role props) props)) \<union>
                     set (keys (fragment (JobProperties.defaultArguments props)))"
    if "\<not> sparkUIEnabled props" and "emittedArguments job = Some arguments" for arguments
  proof -
    have "keys (executableArguments props) = [''--job-language'']"
      and "keys profilingMetricsArgs = [''--enable-metrics'']"
      and "keys [] = []"
      and "keys (fragment (map_option args uiSetup)) = []"
      using that sparkUIArgs_keys [OF ui]
      by (simp_all add: executableArguments_eq profilingMetricsArgs_def keys_def)
    moreover from that emitted have "arguments =
        spread (spread (spread (spread (spread [] (executableArguments props))
          (continuousLoggingArgs env (JobProperties.role props) props))
          profilingMetricsArgs)
          (fragment (map_option args uiSetup)))
          (fragment (JobProperties.defaultArguments props))"
      by simp
    ultimately show ?thesis
      by (simp add: set_keys_spread)
  qed
  have enabled:
    "(''--enable-spark-ui'' \<notin> set (keys (fragment (JobProperties.defaultArguments props)))
        \<longrightarrow> map_of arguments ''--enable-spark-ui'' = Some ''true'') \<and>
     (''--spark-event-logs-path'' \<notin> set (keys (fragment (JobProperties.defaultArguments props)))
        \<longrightarrow> map_of arguments ''--spark-event-logs-path'' = Some (s3UrlForObject env b (Some p)))"
    if "sparkUI props = Some ui" "SparkUIProps.bucket ui = Some b" "SparkUIProps.prefix ui = Some p"
      and "emittedArguments job = Some arguments" for arguments ui b p
  proof -
    from ui that have "fragment (map_option args uiSetup) =
        [(''--enable-spark-ui'', ''true''),
         (''--spark-event-logs-path'', s3UrlForObject env b (Some p))]"
      by (auto simp: sparkUIArgs_cases fragment_def split: if_splits)
    with that emitted show ?thesis
      by (auto simp: map_of_spread_other map_of_set_prop)
  qed
  from none emitted disabled enabled show ?thesis
    by blast
qed

text \<open>Spark UI disabled at \<open>props0\<close>, enabled with the prefix \<^verbatim>\<open>logs/\<close> at \<open>propsAll\<close>.\<close>

theorem spark_ui_arguments_witness:
  "(\<exists>job arguments.
      pySparkStreamingJob env0 ''Stack'' ''Job'' props0 = Inr job \<and>
      \<not> sparkUIEnabled props0 \<and>
      createdBuckets job = [] \<and>
      emittedArguments job = Some arguments \<and>
      ''--enable-spark-ui'' \<notin> set (keys arguments)) \<and>
   (\<exists>job arguments.
      pySparkStreamingJob env0 ''Stack'' ''Job'' propsAll = Inr job \<and>
      sparkUI propsAll = Some \<lparr>SparkUIProps.bucket = Some (Bucket ''events''),
                              SparkUIProps.prefix = Some ''logs/''\<rparr> \<and>
      createdBuckets job = [] \<and>
      emittedArguments job = Some arguments \<and>
      map_of arguments ''--enable-spark-ui'' = Some ''true'' \<and>
      map_of arguments ''--spark-event-logs-path'' = Some ''s3://events/logs/'')"
proof -
  have "\<exists>job. pySparkStreamingJob env0 ''Stack'' ''Job'' props0 = Inr job"
    by (simp add: constructor_defs input_defs)
  then obtain job0 where built0: "pySparkStreamingJob env0 ''Stack'' ''Job'' props0 = Inr job0" ..
  from evaluated_propsAll obtain job1 where
    built1: "pySparkStreamingJob env0 ''Stack'' ''Job'' propsAll = Inr job1" ..
  have disabled: "\<not> sparkUIEnabled props0"
    and logging: "''--enable-spark-ui''
                    \<notin> set (keys (continuousLoggingArgs env0 (JobProperties.role props0) props0))"
    and caller0: "''--enable-spark-ui'' \<notin> set (keys (fragment (JobProperties.defaultArguments props0)))"
    by (simp_all add: sparkUIEnabled_def continuousLoggingArgs_def fragment_def keys_def input_defs)
  have enabled: "sparkUI propsAll = Some \<lparr>SparkUIProps.bucket = Some (Bucket ''events''),
                                         SparkUIProps.prefix = Some ''logs/''\<rparr>"
    and caller1:
      "''--enable-spark-ui'' \<notin> set (keys (fragment (JobProperties.defaultArguments propsAll)))"
      "''--spark-event-logs-path'' \<notin> set (keys (fragment (JobProperties.defaultArguments propsAll)))"
    and url: "s3UrlForObject env0 (Bucket ''events'') (Some ''logs/'') = ''s3://events/logs/''"
    by (simp_all add: fragment_def keys_def input_defs)
  from spark_ui_arguments [OF built0] disabled logging caller0 obtain arguments0 where
    "createdBuckets job0 = []" "emittedArguments job0 = Some arguments0"
    "''--enable-spark-ui'' \<notin> set (keys arguments0)"
    by blast
  moreover
  from spark_ui_arguments [OF built1] obtain arguments1 where
    "createdBuckets job1 = []" "emittedArguments job1 = Some arguments1" and
    entries: "\<forall>ui b p.
               sparkUI propsAll = Some ui \<longrightarrow> SparkUIProps.bucket ui = Some b \<longrightarrow>
               SparkUIProps.prefix ui = Some p \<longrightarrow>
                 (''--enable-spark-ui'' \<notin> set (keys (fragment (JobProperties.defaultArguments propsAll)))
                    \<longrightarrow> map_of arguments1 ''--enable-spark-ui'' = Some ''true'') \<and>
                 (''--spark-event-logs-path''
                      \<notin> set (keys (fragment (JobProperties.defaultArguments propsAll)))
                    \<longrightarrow> map_of arguments1 ''--spark-event-logs-path''
                          = Some (s3UrlForObject env0 b (Some p)))"
    by blast
  moreover from entries enabled caller1 url
  have "map_of arguments1 ''--enable-spark-ui'' = Some ''true''"
    "map_of arguments1 ''--spark-event-logs-path'' = Some ''s3://events/logs/''"
    by auto
  ultimately show ?thesis
    using built0 built1 disabled enabled by blast
qed

text \<open>
  C4 as stated fails where the caller supplies the key: with Spark UI disabled the
  arguments still have \<^verbatim>\<open>--enable-spark-ui\<close>, and with Spark UI enabled the caller's
  \<^verbatim>\<open>false\<close> replaces \<^verbatim>\<open>true\<close>.
\<close>

theorem spark_ui_arguments_counterexample:
  "\<not> sparkUIEnabled propsCallerSparkUiKey \<and>
   argumentsOf (pySparkStreamingJob env0 ''Stack'' ''Job'' propsCallerSparkUiKey) =
     Some [(''--job-language'', ''python''), (''--enable-metrics'', ''''),
           (''--enable-spark-ui'', ''true'')] \<and>
   sparkUI propsCallerOverride = Some \<lparr>SparkUIProps.bucket = Some (Bucket ''events''),
                           SparkUIProps.prefix = Some ''logs/''\<rparr> \<and>
   argumentsOf (pySparkStreamingJob env0 ''Stack'' ''Job'' propsCallerOverride) =
     Some [(''--job-language'', ''python''), (''--enable-metrics'', ''''),
           (''--enable-spark-ui'', ''false''),
           (''--spark-event-logs-path'', ''s3://events/logs/'')]"
  by (simp add: sparkUIEnabled_def constructor_defs input_defs more_input_defs observer_defs)

subsection \<open>C5: Spark UI without a storage container\<close>

text \<open>
  C5 at a Spark UI configuration with a prefix and no container. The constructor does not
  reach \<^verbatim>\<open>setupSparkUI\<close>: no container is created, nothing is granted, no logging
  location is recorded and the arguments have no Spark UI entry. \<^verbatim>\<open>setupSparkUI\<close> itself,
  at the same configuration, creates the container below the job and grants read/write
  on the cleaned prefix.
\<close>

theorem spark_ui_without_bucket_skipped:
  "map_option createdBuckets (constructed (pySparkStreamingJob env0 ''Stack'' ''Job'' propsSparkUINoBucket)) = Some [] \<and>
   map_option permissions (constructed (pySparkStreamingJob env0 ''Stack'' ''Job'' propsSparkUINoBucket)) = Some [] \<and>
   map_option sparkUILoggingLocation (constructed (pySparkStreamingJob env0 ''Stack'' ''Job'' propsSparkUINoBucket))
     = Some None \<and>
   argumentsOf (pySparkStreamingJob env0 ''Stack'' ''Job'' propsSparkUINoBucket)
     = Some [(''--job-language'', ''python''), (''--enable-metrics'', '''')] \<and>
   setupSparkUI env0 ''Stack/Job'' (JobProperties.role propsSparkUINoBucket) sparkUINoBucket =
     Inr \<lparr>location = \<lparr>SparkUILoggingLocation.prefix = Some ''logs/'',
                        SparkUILoggingLocation.bucket = Bucket ''Stack/Job/SparkUIBucket''\<rparr>,
          args = [(''--enable-spark-ui'', ''true''),
                  (''--spark-event-logs-path'', ''s3://Stack/Job/SparkUIBucket/logs/'')],
          created = [Bucket ''Stack/Job/SparkUIBucket''],
          granted = [(Role ''arn:aws:iam::123456789012:role/glue'',
                      ReadWrite (Bucket ''Stack/Job/SparkUIBucket'') (Some ''logs*''))]\<rparr>"
  by (simp add: constructor_defs input_defs more_input_defs observer_defs)

subsection \<open>C6: no worker sizing supplied\<close>

text \<open>
  C6, as the constructor has it. With \<^verbatim>\<open>workerType\<close> and \<^verbatim>\<open>numberOrWorkers\<close> both unset,
  the emitted resource has the worker type \<^verbatim>\<open>G_2X\<close>, the default of the variant, and no
  number of workers.
\<close>

theorem unset_worker_sizing_gets_default:
  assumes built: "pySparkStreamingJob env scope ident props = Inr job"
    and noType: "JobProperties.workerType props = None"
    and noCount: "numberOrWorkers props = None"
  shows "\<exists>resource. jobResource job = Some resource \<and>
           CfnJobProps.workerType resource = Some G_2X \<and>
           numberOfWorkers resource = None"
  using pySparkStreamingJob_Inr [OF built] noType noCount
  by (auto simp: cfnJobProps_def)

text \<open>The least properties leave both unset.\<close>

theorem unset_worker_sizing_gets_default_witness:
  "\<exists>job resource.
      pySparkStreamingJob env0 ''Stack'' ''Job'' props0 = Inr job \<and>
      JobProperties.workerType props0 = None \<and> numberOrWorkers props0 = None \<and>
      jobResource job = Some resource \<and>
      CfnJobProps.workerType resource = Some G_2X \<and>
      numberOfWorkers resource = None"
proof -
  have "\<exists>job. pySparkStreamingJob env0 ''Stack'' ''Job'' props0 = Inr job"
    by (simp add: constructor_defs input_defs)
  then obtain job where built: "pySparkStreamingJob env0 ''Stack'' ''Job'' props0 = Inr job" ..
  have noType: "JobProperties.workerType props0 = None" and noCount: "numberOrWorkers props0 = None"
    by (simp_all add: props0_def)
  from unset_worker_sizing_gets_default [OF built noType noCount] built noType noCount
  show ?thesis by blast
qed

text \<open>
  C6 as stated fails at the least properties: a worker type is handed to the resource.
\<close>

theorem unset_worker_sizing_counterexample:
  "JobProperties.workerType props0 = None \<and> numberOrWorkers props0 = None \<and>
   map_option CfnJobProps.workerType (resourceOf (pySparkStreamingJob env0 ''Stack'' ''Job'' props0))
     = Some (Some G_2X)"
  by (simp add: constructor_defs input_defs observer_defs)

subsection \<open>C7: emission by every variant\<close>

text \<open>
  C7 at the least properties of a Ray job. The constructor returns without emitting a
  resource and leaves the job name and the ARN unassigned.
\<close>

theorem ray_job_emits_nothing:
  "RayJob env0 ''Stack'' ''Ray'' rayProps0 =
     Inr \<lparr>physicalName = None,
          Job.role = Role ''arn:aws:iam::123456789012:role/glue'',
          grantPrincipal = Role ''arn:aws:iam::123456789012:role/glue'',
          sparkUILoggingLocation = None,
          jobArn = None,
          Job.jobName = None,
          createdBuckets = [],
          permissions = [],
          jobResource = None\<rparr>"
  by (simp add: constructor_defs input_defs)

subsection \<open>C8: the role assignment\<close>

text \<open>
  C8. For every constructed job, of either variant, the role field is the caller-supplied
  role, the grant principal is that same role, and no permission given by the
  constructor attaches a managed policy; the object literal after the comma has no say
  in the value assigned.
\<close>

theorem role_literal_without_effect:
  "(pySparkStreamingJob env scope ident props = Inr job \<longrightarrow>
      Job.role job = JobProperties.role props \<and>
      grantPrincipal job = JobProperties.role props \<and>
      (\<forall>g \<in> set (permissions job). \<not> isManagedPolicyAttachment (snd g))) \<and>
   (RayJob env scope ident rayProps = Inr rayJob \<longrightarrow>
      Job.role rayJob = JobProperties.role rayProps \<and>
      grantPrincipal rayJob = JobProperties.role rayProps \<and>
      (\<forall>g \<in> set (permissions rayJob). \<not> isManagedPolicyAttachment (snd g))) \<and>
   assignRole r literal = r"
proof (intro conjI impI)
  assume built: "pySparkStreamingJob env scope ident props = Inr job"
  from pySparkStreamingJob_Inr [OF built] obtain uiSetup where
    ui: "sparkUIArgs env (scope @ ''/'' @ ident) (JobProperties.role props) props = Inr uiSetup" and
    fields: "Job.role job = JobProperties.role props" "grantPrincipal job = JobProperties.role props"
      "permissions job = (case uiSetup of None \<Rightarrow> [] | Some s \<Rightarrow> granted s)"
    by blast
  show "Job.role job = JobProperties.role props" "grantPrincipal job = JobProperties.role props"
    by (rule fields)+
  show "\<forall>g \<in> set (permissions job). \<not> isManagedPolicyAttachment (snd g)"
  proof (cases uiSetup)
    case None
    with fields show ?thesis by simp
  next
    case (Some s)
    with fields sparkUIArgs_granted [of env _ _ props s] ui show ?thesis by simp
  qed
next
  assume built: "RayJob env scope ident rayProps = Inr rayJob"
  from RayJob_Inr [OF built]
  show "Job.role rayJob = JobProperties.role rayProps"
    "grantPrincipal rayJob = JobProperties.role rayProps"
    "\<forall>g \<in> set (permissions rayJob). \<not> isManagedPolicyAttachment (snd g)"
    by simp_all
next
  show "assignRole r literal = r" by (simp add: assignRole_def)
qed

text \<open>At \<open>propsAll\<close> the constructor does give a permission: read/write on the Spark UI bucket.\<close>

theorem role_literal_without_effect_witness:
  "\<exists>job rayJob.
     pySparkStreamingJob env0 ''Stack'' ''Job'' propsAll = Inr job \<and>
     RayJob env0 ''Stack'' ''Job'' rayProps0 = Inr rayJob \<and>
     Job.role job = JobProperties.role propsAll \<and>
     grantPrincipal job = JobProperties.role propsAll \<and>
     (\<forall>g \<in> set (permissions job). \<not> isManagedPolicyAttachment (snd g)) \<and>
     Job.role rayJob = JobProperties.role rayProps0 \<and>
     grantPrincipal rayJob = JobProperties.role rayProps0 \<and>
     (\<forall>g \<in> set (permissions rayJob). \<not> isManagedPolicyAttachment (snd g))"
proof -
  from evaluated_propsAll obtain job where
    built: "pySparkStreamingJob env0 ''Stack'' ''Job'' propsAll = Inr job" ..
  have "\<exists>rayJob. RayJob env0 ''Stack'' ''Job'' rayProps0 = Inr rayJob"
    by (simp add: constructor_defs input_defs)
  then obtain rayJob where ray: "RayJob env0 ''Stack'' ''Job'' rayProps0 = Inr rayJob" ..
  from role_literal_without_effect [of env0 "''Stack''" "''Job''" propsAll job rayProps0 rayJob]
    built ray
  show ?thesis by blast
qed

subsection \<open>C9: the metrics argument\<close>

text \<open>
  C9. For every successfully constructed PySpark Streaming job whose caller-supplied
  \<^verbatim>\<open>defaultArguments\<close> do not have the key, the arguments map \<^verbatim>\<open>--enable-metrics\<close> to the
  empty string, whether continuous logging is enabled or not.
\<close>

theorem metrics_argument_present:
  assumes built: "pySparkStreamingJob env scope ident props = Inr job"
    and caller: "''--enable-metrics'' \<notin> set (keys (fragment (JobProperties.defaultArguments props)))"
  shows "\<exists>arguments. emittedArguments job = Some arguments \<and>
           map_of arguments ''--enable-metrics'' = Some ''''"
proof -
  from pySparkStreamingJob_Inr [OF built] obtain uiSetup where
    ui: "sparkUIArgs env (scope @ ''/'' @ ident) (JobProperties.role props) props = Inr uiSetup" and
    resource: "jobResource job =
             Some (cfnJobProps env (JobProperties.role props)
                    (spread (spread (spread (spread (spread [] (executableArguments props))
                       (continuousLoggingArgs env (JobProperties.role props) props))
                       profilingMetricsArgs)
                       (fragment (map_option args uiSetup)))
                       (fragment (JobProperties.defaultArguments props)))
                    props)"
    by blast
  have sparkUi: "''--enable-metrics'' \<notin> set (keys (fragment (map_option args uiSetup)))"
    by (simp add: sparkUIArgs_keys [OF ui])
  have metrics: "map_of (spread obj profilingMetricsArgs) ''--enable-metrics'' = Some ''''" for obj
    by (simp add: profilingMetricsArgs_def map_of_set_prop)
  show ?thesis
    by (simp add: emittedArguments_def resource defaultArguments_cfnJobProps
          map_of_spread_other [OF caller] map_of_spread_other [OF sparkUi] metrics)
qed

text \<open>Continuous logging absent at \<open>props0\<close>, enabled at \<open>propsLogging\<close>.\<close>

theorem metrics_argument_present_witness:
  "(\<exists>job arguments.
      pySparkStreamingJob env0 ''Stack'' ''Job'' props0 = Inr job \<and>
      continuousLogging props0 = None \<and>
      emittedArguments job = Some arguments \<and>
      map_of arguments ''--enable-metrics'' = Some '''') \<and>
   (\<exists>job arguments.
      pySparkStreamingJob env0 ''Stack'' ''Job'' propsLogging = Inr job \<and>
      map_option enabled (continuousLogging propsLogging) = Some True \<and>
      emittedArguments job = Some arguments \<and>
      map_of arguments ''--enable-metrics'' = Some '''')"
proof -
  have "\<exists>job. pySparkStreamingJob env0 ''Stack'' ''Job'' props0 = Inr job"
    by (simp add: constructor_defs input_defs)
  then obtain job0 where built0: "pySparkStreamingJob env0 ''Stack'' ''Job'' props0 = Inr job0" ..
  have "\<exists>job. pySparkStreamingJob env0 ''Stack'' ''Job'' propsLogging = Inr job"
    by (simp add: constructor_defs input_defs propsLogging_def)
  then obtain job2 where built2: "pySparkStreamingJob env0 ''Stack'' ''Job'' propsLogging = Inr job2" ..
  have caller0: "''--enable-metrics'' \<notin> set (keys (fragment (JobProperties.defaultArguments props0)))"
    by (simp add: fragment_def keys_def props0_def)
  have caller2: "''--enable-metrics'' \<notin> set (keys (fragment (JobProperties.defaultArguments propsLogging)))"
    by (simp add: fragment_def keys_def props0_def propsLogging_def)
  have off: "continuousLogging props0 = None"
    by (simp add: props0_def)
  have on: "map_option enabled (continuousLogging propsLogging) = Some True"
    by (simp add: propsLogging_def)
  from metrics_argument_present [OF built0 caller0] metrics_argument_present [OF built2 caller2]
    built0 built2 off on
  show ?thesis by blast
qed

subsection \<open>C10: the variant's arguments\<close>

text \<open>
  C10. For every properties bag \<^verbatim>\<open>executableArguments\<close> returns exactly the object with the
  one property \<^verbatim>\<open>--job-language\<close>, of value \<^verbatim>\<open>python\<close>; \<^verbatim>\<open>extraPythonFiles\<close> has no effect
  on it.
\<close>

theorem executableArguments_singleton:
  "executableArguments props = [(''--job-language'', ''python'')] \<and>
   executableArguments (props\<lparr>extraPythonFiles := files\<rparr>) = executableArguments props"
  by (simp add: executableArguments_def)

end
